theory Spec2Isabelle
  imports Complex_Main
begin

section \<open>Errors\<close>

text \<open>
  Exceptions are values. The first four are the Python exceptions the notebook's own
  code can raise (an index past the end of a bounding box, a true division by zero, a
  numpy broadcast of incompatible shapes, the read of a local that no branch assigned);
  the last four are the error kinds of the dependency-aware label model.
\<close>

datatype error =
    IndexError
  | ZeroDivisionError
  | ValueError
  | UnboundLocalError
  | InvalidInput
  | ModelNotFittedError
  | ShapeMismatch
  | FitDivergence

section \<open>Labels, bounding boxes and examples\<close>

text \<open>
  The notebook's module-level constants:
  \<^verbatim>\<open>RIDE = 0; CARRY = 1; OTHER = 2; ABSTAIN = -1\<close> and
  \<^verbatim>\<open>YMIN = 0; YMAX = 1; XMIN = 2; XMAX = 3\<close>.
\<close>

definition RIDE :: int where "RIDE = 0"
definition CARRY :: int where "CARRY = 1"
definition OTHER :: int where "OTHER = 2"
definition ABSTAIN :: int where "ABSTAIN = - 1"

definition YMIN :: nat where "YMIN = 0"
definition YMAX :: nat where "YMAX = 1"
definition XMIN :: nat where "XMIN = 2"
definition XMAX :: nat where "XMAX = 3"

text \<open>
  One row of the data frames: the fields the notebook lists for the train, valid and
  test sets. A bounding box is the Python list \<open>[ymin, ymax, xmin, xmax]\<close> of pixel
  coordinates (Python integers, unbounded); the list type does not fix its length, so
  every read of it is checked.
\<close>

record example =
  label :: int
  object_bbox :: "int list"
  object_category :: string
  source_img :: string
  subject_bbox :: "int list"
  subject_category :: string

text \<open>\<open>bbox[i]\<close> for a constant index \<open>i \<ge> 0\<close>: IndexError past the end.\<close>

definition getitem :: "int list \<Rightarrow> nat \<Rightarrow> error + int" where
  "getitem bbox i = (if i < length bbox then Inr (bbox ! i) else Inl IndexError)"

section \<open>The seven labeling functions\<close>

text \<open>
  Each labeling function maps one example to a class index or to ABSTAIN; the three
  that read coordinates can raise, so all have the result type \<open>error + int\<close>.
\<close>

definition lf_ride_object :: "example \<Rightarrow> error + int" where
  "lf_ride_object x =
     (if subject_category x = ''person'' then
        (if object_category x \<in> set [''bike'', ''snowboard'', ''motorcycle'', ''horse'',
                                        ''bus'', ''truck'', ''elephant'']
         then Inr RIDE else Inr ABSTAIN)
      else Inr ABSTAIN)"

definition lf_carry_object :: "example \<Rightarrow> error + int" where
  "lf_carry_object x =
     (if subject_category x = ''person'' then
        (if object_category x \<in> set [''bag'', ''surfboard'', ''skis'']
         then Inr CARRY else Inr ABSTAIN)
      else Inr ABSTAIN)"

definition lf_carry_subject :: "example \<Rightarrow> error + int" where
  "lf_carry_subject x =
     (if object_category x = ''person'' then
        (if subject_category x \<in> set [''chair'', ''bike'', ''snowboard'', ''motorcycle'',
                                         ''horse'']
         then Inr CARRY else Inr ABSTAIN)
      else Inr ABSTAIN)"

definition lf_not_person :: "example \<Rightarrow> error + int" where
  "lf_not_person x = (if subject_category x \<noteq> ''person'' then Inr OTHER else Inr ABSTAIN)"

text \<open>
  \<^verbatim>\<open>if x.subject_bbox[XMAX] < x.object_bbox[XMAX]: return OTHER\<close>; the left operand
  is read first.
\<close>

definition lf_ydist :: "example \<Rightarrow> error + int" where
  "lf_ydist x =
     (case getitem (subject_bbox x) XMAX of
        Inl e \<Rightarrow> Inl e
      | Inr s \<Rightarrow>
          (case getitem (object_bbox x) XMAX of
             Inl e \<Rightarrow> Inl e
           | Inr ob \<Rightarrow> if s < ob then Inr OTHER else Inr ABSTAIN))"

text \<open>
  \<^verbatim>\<open>np.array(a) - np.array(b)\<close> on one-dimensional arrays: elementwise when the
  lengths agree, a length-one array is broadcast against the other, and any other pair
  of lengths raises ValueError. The differences are taken over the unbounded integers,
  as numpy computes them for coordinates within the 64-bit range.
\<close>

definition np_subtract :: "int list \<Rightarrow> int list \<Rightarrow> error + int list" where
  "np_subtract a b =
     (if length a = length b then Inr (map (\<lambda>(p, q). p - q) (zip a b))
      else if length a = 1 then Inr (map (\<lambda>q. hd a - q) b)
      else if length b = 1 then Inr (map (\<lambda>p. p - hd b) a)
      else Inl ValueError)"

text \<open>
  \<^verbatim>\<open>np.linalg.norm(v) <= 1000\<close>: the Euclidean norm is the square root of the sum
  of squares, so on integer coordinates the test is that the sum of squares is at most
  \<open>1000\<^sup>2\<close> (the comparison of the exact values).
\<close>

definition norm_le_1000 :: "int list \<Rightarrow> bool" where
  "norm_le_1000 v = (sum_list (map (\<lambda>d. d * d) v) \<le> 1000 * 1000)"

definition lf_dist :: "example \<Rightarrow> error + int" where
  "lf_dist x =
     (case np_subtract (subject_bbox x) (object_bbox x) of
        Inl e \<Rightarrow> Inl e
      | Inr v \<Rightarrow> if norm_le_1000 v then Inr OTHER else Inr ABSTAIN)"

text \<open>
  \<^verbatim>\<open>return (bbox[YMAX] - bbox[YMIN]) * (bbox[XMAX] - bbox[XMIN])\<close>, the four reads in
  the order Python makes them.
\<close>

definition area :: "int list \<Rightarrow> error + int" where
  "area bbox =
     (case getitem bbox YMAX of
        Inl e \<Rightarrow> Inl e
      | Inr y1 \<Rightarrow>
     (case getitem bbox YMIN of
        Inl e \<Rightarrow> Inl e
      | Inr y0 \<Rightarrow>
     (case getitem bbox XMAX of
        Inl e \<Rightarrow> Inl e
      | Inr x1 \<Rightarrow>
     (case getitem bbox XMIN of
        Inl e \<Rightarrow> Inl e
      | Inr x0 \<Rightarrow> Inr ((y1 - y0) * (x1 - x0))))))"

text \<open>
  Python's true division \<open>a / b\<close> of two integers raises ZeroDivisionError when
  \<open>b = 0\<close>; otherwise the quotient is taken here as the exact rational. Python rounds
  the quotient to a double, which agrees with the exact comparison against \<open>0.5\<close> for
  areas below \<open>2\<^sup>5\<^sup>3\<close>; the test of the divisor against zero is exact.
\<close>

definition truediv :: "int \<Rightarrow> int \<Rightarrow> error + rat" where
  "truediv a b = (if b = 0 then Inl ZeroDivisionError else Inr (of_int a / of_int b))"

text \<open>
  \<^verbatim>\<open>if area(x.subject_bbox) / area(x.object_bbox) <= 0.5: return OTHER\<close>: the
  subject's area is computed first, then the object's, then the quotient.
\<close>

definition lf_area :: "example \<Rightarrow> error + int" where
  "lf_area x =
     (case area (subject_bbox x) of
        Inl e \<Rightarrow> Inl e
      | Inr a \<Rightarrow>
     (case area (object_bbox x) of
        Inl e \<Rightarrow> Inl e
      | Inr b \<Rightarrow>
     (case truediv a b of
        Inl e \<Rightarrow> Inl e
      | Inr q \<Rightarrow> if q \<le> 1 / 2 then Inr OTHER else Inr ABSTAIN)))"

text \<open>The list \<open>lfs\<close> handed to the applier, in the notebook's order.\<close>

definition lfs :: "(example \<Rightarrow> error + int) list" where
  "lfs = [lf_ride_object, lf_carry_object, lf_carry_subject, lf_not_person,
          lf_ydist, lf_dist, lf_area]"

text \<open>
  \<^verbatim>\<open>PandasLFApplier(lfs).apply(df)\<close> belongs to the labeling library: it calls every
  labeling function on every row, in order, and stacks the votes into the label matrix
  (one row per example, one column per labeling function). An exception raised by a
  labeling function ends the call.
\<close>

fun sequence :: "(error + 'a) list \<Rightarrow> error + 'a list" where
  "sequence [] = Inr []"
| "sequence (r # rs) =
     (case r of
        Inl e \<Rightarrow> Inl e
      | Inr v \<Rightarrow> (case sequence rs of Inl e \<Rightarrow> Inl e | Inr vs \<Rightarrow> Inr (v # vs)))"

definition apply_row :: "(example \<Rightarrow> error + int) list \<Rightarrow> example \<Rightarrow> error + int list" where
  "apply_row fs x = sequence (map (\<lambda>f. f x) fs)"

definition applier_apply ::
  "(example \<Rightarrow> error + int) list \<Rightarrow> example list \<Rightarrow> error + int list list" where
  "applier_apply fs df = sequence (map (apply_row fs) df)"

section \<open>Label matrices and dependency edges\<close>

text \<open>
  A label matrix is a two-dimensional integer array of shape
  \<open>n_examples \<times> m_functions\<close>; the column count is kept beside the rows, so that a
  matrix without rows still has its columns. A dependency edge is a pair of column
  indices, and an edge set is passed around as the Python list of its pairs.
\<close>

record lmatrix =
  m_functions :: nat
  votes :: "int list list"

type_synonym edges = "(nat \<times> nat) list"

section \<open>The notebook's dispatch over dependency estimators\<close>

text \<open>
  \<^verbatim>\<open>overall_deps_fn(deps_name, param)\<close> selects a dependency estimator by name. The
  estimators themselves (\<open>CDM\<close>, \<open>CDGAM\<close>, \<open>NM\<close>, \<open>ModVarma_InCov\<close>, \<open>get_varma_edges\<close>,
  \<open>get_varma_with_gold_edges\<close>) are imported from modules whose text is not at hand,
  so they are parameters: a record of functions with the argument lists of the call
  sites (\<open>L\<close>, \<open>Y\<close> where passed, \<open>k\<close>, \<open>sig\<close> or \<open>thresh\<close>, \<open>policy\<close>, \<open>verbose\<close>,
  \<open>return_more_info\<close>). \<open>L_dev\<close> and \<open>Y_dev\<close> are globals of the notebook and become
  arguments.
\<close>

record estimators =
  CDM :: "lmatrix \<Rightarrow> int list \<Rightarrow> nat \<Rightarrow> rat \<Rightarrow> string \<Rightarrow> bool \<Rightarrow> bool \<Rightarrow> error + edges"
  CDGAM :: "lmatrix \<Rightarrow> nat \<Rightarrow> rat \<Rightarrow> string \<Rightarrow> bool \<Rightarrow> bool \<Rightarrow> error + edges"
  NM :: "lmatrix \<Rightarrow> int list \<Rightarrow> nat \<Rightarrow> rat \<Rightarrow> string \<Rightarrow> bool \<Rightarrow> bool \<Rightarrow> error + edges"
  ModVarma_InCov :: "lmatrix \<Rightarrow> int list \<Rightarrow> rat \<Rightarrow> error + edges"
  get_varma_edges :: "lmatrix \<Rightarrow> rat \<Rightarrow> error + edges"
  get_varma_with_gold_edges :: "lmatrix \<Rightarrow> int list \<Rightarrow> rat \<Rightarrow> error + edges"

text \<open>
  The \<open>if\<close>/\<open>elif\<close> chain in the source's order. No branch assigns \<open>deps\<close> for a name
  outside the eight, and \<^verbatim>\<open>return deps\<close> then raises UnboundLocalError.
\<close>

definition overall_deps_fn ::
  "estimators \<Rightarrow> lmatrix \<Rightarrow> int list \<Rightarrow> string \<Rightarrow> rat \<Rightarrow> error + edges" where
  "overall_deps_fn E L_dev Y_dev deps_name param =
     (if deps_name = ''CDM'' then CDM E L_dev Y_dev 3 param ''new'' False False
      else if deps_name = ''CDGAM'' then CDGAM E L_dev 3 param ''new'' False False
      else if deps_name = ''NM'' then NM E L_dev Y_dev 3 param ''old'' False False
      else if deps_name = ''NM_NP'' then NM E L_dev Y_dev 3 param ''new'' False False
      else if deps_name = ''Mod_Varma'' then ModVarma_InCov E L_dev Y_dev param
      else if deps_name = ''Varma'' then get_varma_edges E L_dev param
      else if deps_name = ''Varma_Gold'' then get_varma_with_gold_edges E L_dev Y_dev param
      else if deps_name = ''Empty'' then Inr []
      else Inl UnboundLocalError)"

section \<open>The dependency estimator\<close>

text \<open>
  Modelled from the spec: the bodies of the dependency estimators (the functions that
  \<open>overall_deps_fn\<close> calls) are not at hand, so \<open>estimate_edges\<close> follows the
  specification's contract and its policy-agnostic skeleton: for every pair of columns
  a pairwise statistic is computed, and an edge is declared when the statistic's
  magnitude exceeds the significance threshold. The policy \<open>empty\<close> yields no edges
  whatever its other arguments are. The call fails with InvalidInput when \<open>L\<close> has
  fewer than two columns, when \<open>k \<le> 1\<close>, when a gold-requiring policy is invoked
  without \<open>Y\<close>, or when the threshold is outside the policy's valid domain.
\<close>

datatype policy = Covariance_Based | Gold_Covariance_Based | Entropy_Based | Empty_Policy

text \<open>
  Modelled from the spec: what the specification leaves open about a policy is a
  parameter of the estimator: the statistic computed per pair (from the policy, \<open>L\<close>,
  \<open>Y\<close> when given, \<open>k\<close> and the two columns), the threshold's valid domain, and whether
  the policy requires gold labels.
\<close>

record statistics =
  pair_statistic :: "policy \<Rightarrow> lmatrix \<Rightarrow> int list option \<Rightarrow> nat \<Rightarrow> nat \<Rightarrow> nat \<Rightarrow> rat"
  threshold_domain :: "policy \<Rightarrow> rat \<Rightarrow> bool"
  needs_gold :: "policy \<Rightarrow> bool"

text \<open>Modelled from the spec: every pair of columns, each unordered pair once.\<close>

definition column_pairs :: "nat \<Rightarrow> edges" where
  "column_pairs m = filter (\<lambda>(i, j). i < j) (List.product [0..<m] [0..<m])"

definition estimate_edges ::
  "statistics \<Rightarrow> lmatrix \<Rightarrow> int list option \<Rightarrow> nat \<Rightarrow> rat \<Rightarrow> policy \<Rightarrow> error + edges" where
  "estimate_edges S L Y k significance_threshold pol =
     (if pol = Empty_Policy then Inr []
      else if m_functions L < 2 then Inl InvalidInput
      else if k \<le> 1 then Inl InvalidInput
      else if needs_gold S pol \<and> Y = None then Inl InvalidInput
      else if threshold_domain S pol significance_threshold then
        Inr (filter (\<lambda>(i, j). significance_threshold < \<bar>pair_statistic S pol L Y k i j\<bar>)
               (column_pairs (m_functions L)))
      else Inl InvalidInput)"

text \<open>
  Modelled from the spec: one instance of the open parts, for running the estimator on
  concrete matrices. The statistic is the covariance of the two columns over the rows
  where neither abstains (an abstention is no vote, never a class value), and zero when
  there is no such row; thresholds are non-negative; only the gold-informed policy
  requires \<open>Y\<close>.
\<close>

definition vote :: "int list \<Rightarrow> nat \<Rightarrow> int" where
  "vote r i = (if i < length r then r ! i else ABSTAIN)"

definition co_votes :: "lmatrix \<Rightarrow> nat \<Rightarrow> nat \<Rightarrow> (int \<times> int) list" where
  "co_votes L i j =
     filter (\<lambda>(a, b). a \<noteq> ABSTAIN \<and> b \<noteq> ABSTAIN) (map (\<lambda>r. (vote r i, vote r j)) (votes L))"

definition mean :: "int list \<Rightarrow> rat" where
  "mean xs = of_int (sum_list xs) / of_nat (length xs)"

definition covariance :: "(int \<times> int) list \<Rightarrow> rat" where
  "covariance ps =
     (if ps = [] then 0
      else mean (map (\<lambda>(a, b). a * b) ps) - mean (map fst ps) * mean (map snd ps))"

definition covariance_statistics :: statistics where
  "covariance_statistics =
     \<lparr>pair_statistic = (\<lambda>pol L Y k i j. covariance (co_votes L i j)),
      threshold_domain = (\<lambda>pol t. 0 \<le> t),
      needs_gold = (\<lambda>pol. pol = Gold_Covariance_Based)\<rparr>"

section \<open>The generative label model\<close>

text \<open>
  Modelled from the spec: the class \<open>Informed_LabelModel\<close> is imported from a module
  whose text is not at hand, so the model follows the specification: the state machine
  \<open>Unfitted \<rightarrow> Fitting \<rightarrow> Fitted\<close>, a cardinality fixed at construction, parameters
  created at fit time and frozen afterwards, and the column count used at fit time.
\<close>

datatype 'p fit_state = Unfitted | Fitting | Fitted nat 'p

record 'p label_model =
  cardinality :: nat
  phase :: "'p fit_state"

text \<open>
  Modelled from the spec: the numeric content of the model is a parameter: how the
  parameters are initialised from the seed, one optimisation step at a learning rate,
  which parameters are finite, and the class probabilities inferred for a row of votes.
\<close>

record 'p kernel =
  init_params :: "nat \<Rightarrow> nat \<Rightarrow> edges \<Rightarrow> int \<Rightarrow> 'p"
  epoch :: "rat \<Rightarrow> lmatrix \<Rightarrow> edges \<Rightarrow> 'p \<Rightarrow> 'p"
  finite_params :: "'p \<Rightarrow> bool"
  posterior :: "nat \<Rightarrow> 'p \<Rightarrow> int list \<Rightarrow> rat list"

text \<open>Modelled from the spec: a new instance is Unfitted.\<close>

definition new_model :: "nat \<Rightarrow> 'p label_model" where
  "new_model c = \<lparr>cardinality = c, phase = Unfitted\<rparr>"

text \<open>
  Modelled from the spec: the inputs \<open>fit\<close> requires. Every row of \<open>L_train\<close> has one
  entry per column, each an abstention or a class index in \<open>[0, cardinality)\<close>; every
  edge joins two different valid columns and no unordered pair occurs twice; the
  learning rate is positive and there is at least one epoch.
\<close>

definition valid_votes :: "nat \<Rightarrow> lmatrix \<Rightarrow> bool" where
  "valid_votes c L =
     list_all (\<lambda>r. length r = m_functions L \<and>
                    list_all (\<lambda>v. v = ABSTAIN \<or> (0 \<le> v \<and> v < int c)) r) (votes L)"

definition valid_edges :: "nat \<Rightarrow> edges \<Rightarrow> bool" where
  "valid_edges m es =
     (list_all (\<lambda>(i, j). i \<noteq> j \<and> i < m \<and> j < m) es \<and>
      distinct (map (\<lambda>(i, j). (min i j, max i j)) es))"

definition fit_input_ok :: "nat \<Rightarrow> lmatrix \<Rightarrow> edges \<Rightarrow> rat \<Rightarrow> int \<Rightarrow> bool" where
  "fit_input_ok c L_train es learning_rate n_epochs =
     (valid_votes c L_train \<and> valid_edges (m_functions L_train) es \<and>
      0 < learning_rate \<and> 1 \<le> n_epochs)"

text \<open>
  Modelled from the spec: \<open>fit(L_train, edges, seed, learning_rate, n_epochs,
  log_frequency)\<close> mutates the instance, so it returns the instance after the call
  beside the error raised, if any. InvalidInput is raised at call entry and nothing is
  applied. Otherwise fitting starts from scratch (prior parameters are discarded), the
  optimisation runs exactly \<open>n_epochs\<close> steps from the seeded initial parameters, and
  non-finite parameters are surfaced as FitDivergence, leaving no fitted model. The
  logging frequency does not affect the result.
\<close>

definition fit ::
  "'p kernel \<Rightarrow> 'p label_model \<Rightarrow> lmatrix \<Rightarrow> edges \<Rightarrow> int \<Rightarrow> rat \<Rightarrow> int \<Rightarrow> rat \<Rightarrow>
   'p label_model \<times> error option" where
  "fit K M L_train es seed learning_rate n_epochs log_frequency =
     (if fit_input_ok (cardinality M) L_train es learning_rate n_epochs then
        (let p0 = init_params K (cardinality M) (m_functions L_train) es seed;
             p = (epoch K learning_rate L_train es ^^ nat n_epochs) p0
         in if finite_params K p
            then (M\<lparr>phase := Fitted (m_functions L_train) p\<rparr>, None)
            else (M\<lparr>phase := Unfitted\<rparr>, Some FitDivergence))
      else (M, Some InvalidInput))"

text \<open>
  Modelled from the spec: \<open>predict_proba(L)\<close> is valid only in the Fitted state and
  fails with ModelNotFittedError before; it requires the column count of fit time
  (ShapeMismatch otherwise) and returns one row of class probabilities per row of \<open>L\<close>.
\<close>

definition predict_proba :: "'p kernel \<Rightarrow> 'p label_model \<Rightarrow> lmatrix \<Rightarrow> error + rat list list" where
  "predict_proba K M L =
     (case phase M of
        Unfitted \<Rightarrow> Inl ModelNotFittedError
      | Fitting \<Rightarrow> Inl ModelNotFittedError
      | Fitted m p \<Rightarrow>
          if m_functions L = m then Inr (map (posterior K (cardinality M) p) (votes L))
          else Inl ShapeMismatch)"

text \<open>
  Modelled from the spec: hard predictions by arg-max, ties going to the lowest class
  index.
\<close>

fun argmax_from :: "nat \<Rightarrow> rat \<Rightarrow> nat \<Rightarrow> rat list \<Rightarrow> nat" where
  "argmax_from best b i [] = best"
| "argmax_from best b i (q # qs) =
     (if b < q then argmax_from i q (Suc i) qs else argmax_from best b (Suc i) qs)"

definition argmax :: "rat list \<Rightarrow> nat" where
  "argmax qs = (case qs of [] \<Rightarrow> 0 | q # rest \<Rightarrow> argmax_from 0 q 1 rest)"

text \<open>
  Modelled from the spec: \<open>score(L, Y, metric)\<close> turns the probabilities into hard
  predictions and compares them to \<open>Y\<close> under the requested metric, here any function of
  the gold labels and the predictions; it fails as \<open>predict_proba\<close> does, and with
  ShapeMismatch when \<open>L\<close> and \<open>Y\<close> differ in their row counts.
\<close>

definition score ::
  "'p kernel \<Rightarrow> 'p label_model \<Rightarrow> lmatrix \<Rightarrow> int list \<Rightarrow> (int list \<Rightarrow> int list \<Rightarrow> rat) \<Rightarrow>
   error + rat" where
  "score K M L Y metric =
     (case predict_proba K M L of
        Inl e \<Rightarrow> Inl e
      | Inr P \<Rightarrow>
          if length Y = length (votes L) then Inr (metric Y (map (\<lambda>r. int (argmax r)) P))
          else Inl ShapeMismatch)"

text \<open>
  Modelled from the spec: the instances that no \<open>fit\<close> call has yet fitted, as the
  state machine reaches them: a new instance, and any such instance after a \<open>fit\<close>
  call that raised.
\<close>

inductive never_fitted :: "'p kernel \<Rightarrow> 'p label_model \<Rightarrow> bool" for K :: "'p kernel" where
  fresh: "never_fitted K (new_model c)"
| failed: "never_fitted K M \<Longrightarrow>
           fit K M L_train es seed learning_rate n_epochs log_frequency = (M', Some e) \<Longrightarrow>
           never_fitted K M'"

section \<open>The notebook's sweep body\<close>



section \<open>Sample inputs\<close>

text \<open>
  Concrete inputs on which the definitions above are evaluated: three rows of a data
  frame (a person on a bike, a person beside a zero-height object, a chair under a
  person), a label matrix of five rows and three columns with its gold labels, an
  instance of the estimators record in which every name is served by \<open>estimate_edges\<close>
  under the covariance statistic, and a small numeric kernel whose parameters are one
  weight per column and per edge, moved towards one by each epoch.
\<close>

definition sample_rider :: example where
  "sample_rider =
     \<lparr>label = 0, object_bbox = [300, 500, 100, 400], object_category = ''bike'',
      source_img = ''img_1.jpg'', subject_bbox = [100, 400, 150, 350],
      subject_category = ''person''\<rparr>"

definition sample_flat :: example where
  "sample_flat =
     \<lparr>label = 2, object_bbox = [200, 200, 10, 50], object_category = ''street'',
      source_img = ''img_2.jpg'', subject_bbox = [100, 400, 150, 350],
      subject_category = ''person''\<rparr>"

definition sample_chair :: example where
  "sample_chair =
     \<lparr>label = 1, object_bbox = [0, 900, 0, 2000], object_category = ''person'',
      source_img = ''img_3.jpg'', subject_bbox = [400, 600, 100, 300],
      subject_category = ''chair''\<rparr>"

definition sample_L :: lmatrix where
  "sample_L =
     \<lparr>m_functions = 3,
      votes = [[0, 0, - 1], [1, 1, 2], [0, 0, 2], [- 1, 1, 2], [2, 2, 0]]\<rparr>"

definition sample_Y :: "int list" where
  "sample_Y = [0, 1, 0, 1, 2]"


definition sample_kernel :: "rat list kernel" where
  "sample_kernel =
     \<lparr>init_params = (\<lambda>c m es seed. replicate (m + length es) (of_int (seed mod 10 + 1) / 20)),
      epoch = (\<lambda>lr L es p. map (\<lambda>a. a + lr * (1 - a)) p),
      finite_params = (\<lambda>p. list_all (\<lambda>a. \<bar>a\<bar> \<le> 1000) p),
      posterior = (\<lambda>c p row.
        let w = map (\<lambda>cls. 1 + sum_list (map (\<lambda>(a, v). if v = int cls then a else 0)
                                               (zip p row))) [0..<c]
        in map (\<lambda>q. q / sum_list w) w)\<rparr>"

section \<open>Properties of the labeling functions\<close>

lemma sequence_Inr_D: "sequence rs = Inr vs \<Longrightarrow> rs = map Inr vs"
proof (induction rs arbitrary: vs)
  case Nil
  then show ?case by simp
next
  case (Cons r rs)
  from Cons.prems obtain v ws
    where r: "r = Inr v" and ws: "sequence rs = Inr ws" and vs: "vs = v # ws"
    by (auto split: sum.splits)
  from Cons.IH [OF ws] r vs show ?case by simp
qed

lemma category_votes:
  "lf_ride_object x \<in> {Inr ABSTAIN, Inr RIDE}"
  "lf_carry_object x \<in> {Inr ABSTAIN, Inr CARRY}"
  "lf_carry_subject x \<in> {Inr ABSTAIN, Inr CARRY}"
  "lf_not_person x \<in> {Inr ABSTAIN, Inr OTHER}"
  by (simp_all add: lf_ride_object_def lf_carry_object_def lf_carry_subject_def
      lf_not_person_def)

lemma lf_ydist_votes: "lf_ydist x \<in> {Inr ABSTAIN, Inr OTHER, Inl IndexError}"
  by (simp add: lf_ydist_def getitem_def)

lemma lf_dist_votes: "lf_dist x \<in> {Inr ABSTAIN, Inr OTHER, Inl ValueError}"
  by (simp add: lf_dist_def np_subtract_def)

lemma area_cases: "area b = Inl IndexError \<or> (\<exists>a. area b = Inr a)"
  by (simp add: area_def getitem_def)

lemma area_four:
  "length b = 4 \<Longrightarrow> area b = Inr ((b ! YMAX - b ! YMIN) * (b ! XMAX - b ! XMIN))"
  by (simp add: area_def getitem_def XMAX_def YMIN_def YMAX_def XMIN_def)

lemma lf_area_votes:
  "lf_area x \<in> {Inr ABSTAIN, Inr OTHER, Inl IndexError, Inl ZeroDivisionError}"
  using area_cases [of "subject_bbox x"] area_cases [of "object_bbox x"]
  by (auto simp add: lf_area_def truediv_def split: if_splits)

lemma apply_row_lfs:
  assumes "apply_row lfs x = Inr r"
  shows "\<exists>v0 v1 v2 v3 v4 v5 v6. r = [v0, v1, v2, v3, v4, v5, v6] \<and>
     lf_ride_object x = Inr v0 \<and> lf_carry_object x = Inr v1 \<and> lf_carry_subject x = Inr v2 \<and>
     lf_not_person x = Inr v3 \<and> lf_ydist x = Inr v4 \<and> lf_dist x = Inr v5 \<and>
     lf_area x = Inr v6"
proof -
  from assms have "map (\<lambda>f. f x) lfs = map Inr r"
    unfolding apply_row_def by (rule sequence_Inr_D)
  then have "[lf_ride_object x, lf_carry_object x, lf_carry_subject x, lf_not_person x,
              lf_ydist x, lf_dist x, lf_area x] = map Inr r"
    by (simp add: lfs_def)
  then show ?thesis by (auto simp add: Cons_eq_map_conv)
qed

lemma row_votes:
  assumes "apply_row lfs x = Inr r"
  shows "length r = 7"
    "r ! 0 \<in> {ABSTAIN, RIDE}" "r ! 1 \<in> {ABSTAIN, CARRY}" "r ! 2 \<in> {ABSTAIN, CARRY}"
    "r ! 3 \<in> {ABSTAIN, OTHER}" "r ! 4 \<in> {ABSTAIN, OTHER}" "r ! 5 \<in> {ABSTAIN, OTHER}"
    "r ! 6 \<in> {ABSTAIN, OTHER}"
proof -
  from apply_row_lfs [OF assms] obtain v0 v1 v2 v3 v4 v5 v6 where
    r: "r = [v0, v1, v2, v3, v4, v5, v6]" and
    v0: "lf_ride_object x = Inr v0" and v1: "lf_carry_object x = Inr v1" and
    v2: "lf_carry_subject x = Inr v2" and v3: "lf_not_person x = Inr v3" and
    v4: "lf_ydist x = Inr v4" and v5: "lf_dist x = Inr v5" and v6: "lf_area x = Inr v6"
    by blast
  show "length r = 7" by (simp add: r)
  show "r ! 0 \<in> {ABSTAIN, RIDE}" using category_votes(1) [of x] by (simp add: r v0)
  show "r ! 1 \<in> {ABSTAIN, CARRY}" using category_votes(2) [of x] by (simp add: r v1)
  show "r ! 2 \<in> {ABSTAIN, CARRY}" using category_votes(3) [of x] by (simp add: r v2)
  show "r ! 3 \<in> {ABSTAIN, OTHER}" using category_votes(4) [of x] by (simp add: r v3)
  show "r ! 4 \<in> {ABSTAIN, OTHER}" using lf_ydist_votes [of x] by (simp add: r v4)
  show "r ! 5 \<in> {ABSTAIN, OTHER}" using lf_dist_votes [of x] by (simp add: r v5)
  show "r ! 6 \<in> {ABSTAIN, OTHER}" using lf_area_votes [of x] by (simp add: r v6)
qed

lemma row_unipolar:
  assumes "apply_row lfs x = Inr r" "j < 7"
  shows "r ! j = ABSTAIN \<or> r ! j = [RIDE, CARRY, CARRY, OTHER, OTHER, OTHER, OTHER] ! j"
proof -
  from \<open>j < 7\<close> consider "j = 0" | "j = 1" | "j = 2" | "j = 3" | "j = 4" | "j = 5" | "j = 6"
    by linarith
  then show ?thesis
  proof cases
    case 1 then show ?thesis using row_votes(2) [OF assms(1)] by simp
  next
    case 2 then show ?thesis using row_votes(3) [OF assms(1)] by simp
  next
    case 3 then show ?thesis using row_votes(4) [OF assms(1)] by simp
  next
    case 4 then show ?thesis using row_votes(5) [OF assms(1)] by simp
  next
    case 5 then show ?thesis using row_votes(6) [OF assms(1)] by simp
  next
    case 6 then show ?thesis using row_votes(7) [OF assms(1)] by simp
  next
    case 7 then show ?thesis using row_votes(8) [OF assms(1)] by simp
  qed
qed

lemma matrix_rows:
  assumes "applier_apply lfs df = Inr L" "r \<in> set L"
  shows "\<exists>x \<in> set df. apply_row lfs x = Inr r"
proof -
  from assms(1) have "map (apply_row lfs) df = map Inr L"
    unfolding applier_apply_def by (rule sequence_Inr_D)
  then have "Inr r \<in> set (map (apply_row lfs) df)" using assms(2) by simp
  then show ?thesis by auto
qed

lemma column_votes:
  assumes "applier_apply lfs df = Inr L" "j < 7" "r \<in> set L"
  shows "r ! j = ABSTAIN \<or> r ! j = [RIDE, CARRY, CARRY, OTHER, OTHER, OTHER, OTHER] ! j"
  using matrix_rows [OF assms(1) assms(3)] row_unipolar [OF _ assms(2)] by blast

lemma column_unipolar:
  assumes "applier_apply lfs df = Inr L" "j < 7"
  shows "card ((\<lambda>r. r ! j) ` set L - {ABSTAIN}) \<le> 1"
proof -
  have "(\<lambda>r. r ! j) ` set L - {ABSTAIN}
          \<subseteq> {[RIDE, CARRY, CARRY, OTHER, OTHER, OTHER, OTHER] ! j}"
    using column_votes [OF assms] by blast
  then have "card ((\<lambda>r. r ! j) ` set L - {ABSTAIN})
               \<le> card {[RIDE, CARRY, CARRY, OTHER, OTHER, OTHER, OTHER] ! j}"
    by (intro card_mono) auto
  then show ?thesis by simp
qed

lemma sample_matrix:
  "applier_apply lfs [sample_rider, sample_chair] =
     Inr [[0, - 1, - 1, - 1, 2, 2, - 1], [- 1, - 1, 1, 2, 2, - 1, 2]]"
  by (simp add: applier_apply_def apply_row_def lfs_def sample_rider_def sample_chair_def
      lf_ride_object_def lf_carry_object_def lf_carry_subject_def lf_not_person_def
      lf_ydist_def lf_dist_def lf_area_def area_def getitem_def truediv_def np_subtract_def
      norm_le_1000_def RIDE_def CARRY_def OTHER_def ABSTAIN_def
      YMIN_def YMAX_def XMIN_def XMAX_def)

text \<open>
  C8: \<open>lf_area\<close> is defined only when the object's bounding box has non-zero area. For
  every example whose two bounding boxes have their four coordinates, the call raises
  ZeroDivisionError when \<open>(ymax - ymin) * (xmax - xmin)\<close> of the object box is zero, and
  otherwise returns the vote decided by the quotient of the two areas.
\<close>

theorem lf_area_zero_division:
  assumes "length (subject_bbox x) = 4" and "length (object_bbox x) = 4"
  shows "area (object_bbox x) =
           Inr ((object_bbox x ! YMAX - object_bbox x ! YMIN) *
                (object_bbox x ! XMAX - object_bbox x ! XMIN)) \<and>
         lf_area x =
           (if (object_bbox x ! YMAX - object_bbox x ! YMIN) *
               (object_bbox x ! XMAX - object_bbox x ! XMIN) = 0
            then Inl ZeroDivisionError
            else if rat_of_int ((subject_bbox x ! YMAX - subject_bbox x ! YMIN) *
                                (subject_bbox x ! XMAX - subject_bbox x ! XMIN)) /
                    rat_of_int ((object_bbox x ! YMAX - object_bbox x ! YMIN) *
                                (object_bbox x ! XMAX - object_bbox x ! XMIN)) \<le> 1 / 2
            then Inr OTHER else Inr ABSTAIN)"
  using assms by (simp add: lf_area_def area_four truediv_def)

theorem lf_area_zero_division_witness:
  "length (subject_bbox sample_flat) = 4 \<and> length (object_bbox sample_flat) = 4 \<and>
   area (object_bbox sample_flat) = Inr 0 \<and> lf_area sample_flat = Inl ZeroDivisionError \<and>
   length (subject_bbox sample_chair) = 4 \<and> length (object_bbox sample_chair) = 4 \<and>
   area (object_bbox sample_chair) = Inr 1800000 \<and> lf_area sample_chair = Inr OTHER"
  using lf_area_zero_division [of sample_flat] lf_area_zero_division [of sample_chair]
  by (simp add: sample_flat_def sample_chair_def YMIN_def YMAX_def XMIN_def XMAX_def)

text \<open>
  C9: despite its name, \<open>lf_ydist\<close> compares horizontal coordinates. For every example
  whose two bounding boxes have their four coordinates it returns OTHER (2) if the
  subject's entry at index XMAX = 3 is smaller than the object's, and ABSTAIN (-1)
  otherwise; and no y-coordinate is read: overwriting the entries at YMIN and YMAX of
  both boxes with any values leaves the result unchanged.
\<close>

theorem lf_ydist_compares_xmax:
  assumes "length (subject_bbox x) = 4" and "length (object_bbox x) = 4"
  shows "XMAX = 3 \<and>
         lf_ydist x = Inr (if subject_bbox x ! 3 < object_bbox x ! 3 then 2 else - 1) \<and>
         lf_ydist (x\<lparr>subject_bbox := (subject_bbox x)[YMIN := a, YMAX := b],
                     object_bbox := (object_bbox x)[YMIN := c, YMAX := d]\<rparr>) = lf_ydist x"
  using assms
  by (simp add: lf_ydist_def getitem_def XMAX_def YMIN_def YMAX_def OTHER_def ABSTAIN_def)

theorem lf_ydist_compares_xmax_witness:
  "length (subject_bbox sample_rider) = 4 \<and> length (object_bbox sample_rider) = 4 \<and>
   subject_bbox sample_rider ! 3 = 350 \<and> object_bbox sample_rider ! 3 = 400 \<and>
   lf_ydist sample_rider = Inr 2 \<and>
   lf_ydist (sample_rider\<lparr>subject_bbox := (subject_bbox sample_rider)[YMIN := 900, YMAX := 950],
                           object_bbox := (object_bbox sample_rider)[YMIN := 0, YMAX := 1]\<rparr>) =
     Inr 2"
  using lf_ydist_compares_xmax [where x = sample_rider and a = 900 and b = 950 and c = 0 and d = 1]
  by (simp add: sample_rider_def YMIN_def YMAX_def)

text \<open>
  C10: every one of the seven labeling functions is unipolar. Whatever the example,
  \<open>lf_ride_object\<close> returns ABSTAIN or RIDE, \<open>lf_carry_object\<close> and \<open>lf_carry_subject\<close>
  return ABSTAIN or CARRY, \<open>lf_not_person\<close> returns ABSTAIN or OTHER, and \<open>lf_ydist\<close>,
  \<open>lf_dist\<close> and \<open>lf_area\<close> return ABSTAIN or OTHER unless they raise; so in a label
  matrix built from them every entry of column \<open>j\<close> is ABSTAIN or the one class of that
  column, and the column takes at most one distinct non-abstain value.
\<close>

theorem labeling_functions_unipolar:
  "lf_ride_object x \<in> {Inr ABSTAIN, Inr RIDE} \<and>
   lf_carry_object x \<in> {Inr ABSTAIN, Inr CARRY} \<and>
   lf_carry_subject x \<in> {Inr ABSTAIN, Inr CARRY} \<and>
   lf_not_person x \<in> {Inr ABSTAIN, Inr OTHER} \<and>
   lf_ydist x \<in> {Inr ABSTAIN, Inr OTHER, Inl IndexError} \<and>
   lf_dist x \<in> {Inr ABSTAIN, Inr OTHER, Inl ValueError} \<and>
   lf_area x \<in> {Inr ABSTAIN, Inr OTHER, Inl IndexError, Inl ZeroDivisionError} \<and>
   (applier_apply lfs df = Inr L \<longrightarrow> j < length lfs \<longrightarrow>
      (\<forall>r \<in> set L. r ! j = ABSTAIN \<or>
                     r ! j = [RIDE, CARRY, CARRY, OTHER, OTHER, OTHER, OTHER] ! j) \<and>
      card ((\<lambda>r. r ! j) ` set L - {ABSTAIN}) \<le> 1)"
proof -
  have "length lfs = 7" by (simp add: lfs_def)
  then have "applier_apply lfs df = Inr L \<longrightarrow> j < length lfs \<longrightarrow>
      (\<forall>r \<in> set L. r ! j = ABSTAIN \<or>
                     r ! j = [RIDE, CARRY, CARRY, OTHER, OTHER, OTHER, OTHER] ! j) \<and>
      card ((\<lambda>r. r ! j) ` set L - {ABSTAIN}) \<le> 1"
    using column_votes [of df L j] column_unipolar [of df L j] by simp
  with category_votes [of x] lf_ydist_votes [of x] lf_dist_votes [of x] lf_area_votes [of x]
  show ?thesis by blast
qed

theorem labeling_functions_unipolar_witness:
  "applier_apply lfs [sample_rider, sample_chair] =
     Inr [[0, - 1, - 1, - 1, 2, 2, - 1], [- 1, - 1, 1, 2, 2, - 1, 2]] \<and>
   (4::nat) < length lfs \<and>
   card ((\<lambda>r. r ! 4) ` set [[0, - 1, - 1, - 1, 2, 2, - 1], [- 1, - 1, 1, 2, 2, - 1, 2 :: int]]
           - {ABSTAIN}) \<le> 1 \<and>
   lf_area sample_chair \<in> {Inr ABSTAIN, Inr OTHER, Inl IndexError, Inl ZeroDivisionError}"
  using labeling_functions_unipolar
    [of sample_chair "[sample_rider, sample_chair]"
        "[[0, - 1, - 1, - 1, 2, 2, - 1], [- 1, - 1, 1, 2, 2, - 1, 2]]" 4]
    sample_matrix
  by (simp add: lfs_def)


section \<open>Properties of the dispatch and of the dependency estimator\<close>

text \<open>
  C3: with the policy \<open>Empty\<close> the notebook's dispatch returns the empty edge list,
  for every label matrix, every gold vector, every threshold parameter, and whatever
  the imported estimators are.
\<close>

theorem overall_deps_fn_Empty:
  "overall_deps_fn E L_dev Y_dev ''Empty'' param = Inr []"
  by (simp add: overall_deps_fn_def)

lemma set_column_pairs: "set (column_pairs m) = {(i, j). i < j \<and> j < m}"
  by (auto simp add: column_pairs_def)

lemma distinct_column_pairs: "distinct (column_pairs m)"
  by (simp add: column_pairs_def distinct_product)

lemma unordered_inj: "inj_on (\<lambda>(i, j). {i, j}) {(i, j). i < (j::nat)}"
  by (auto simp add: inj_on_def doubleton_eq_iff)

lemma distinct_unordered_column_pairs:
  "distinct (map (\<lambda>(i, j). {i, j}) (column_pairs m))"
proof -
  have "set (column_pairs m) \<subseteq> {(i, j). i < j}"
    by (auto simp add: set_column_pairs)
  then have "inj_on (\<lambda>(i, j). {i, j}) (set (column_pairs m))"
    by (rule inj_on_subset [OF unordered_inj])
  then show ?thesis by (simp add: distinct_map distinct_column_pairs)
qed

lemma estimate_edges_Inr:
  assumes "estimate_edges S L Y k t pol = Inr E"
  shows "\<exists>P. E = filter P (column_pairs (m_functions L))"
proof (cases "pol = Empty_Policy")
  case True
  with assms have "E = filter (\<lambda>_. False) (column_pairs (m_functions L))"
    by (simp add: estimate_edges_def)
  then show ?thesis by blast
next
  case False
  with assms show ?thesis
    by (auto simp add: estimate_edges_def split: if_splits)
qed

lemma length_filter_mono:
  assumes "\<And>x. x \<in> set xs \<Longrightarrow> P x \<Longrightarrow> Q x"
  shows "length (filter P xs) \<le> length (filter Q xs)"
  using assms by (induction xs) auto

lemma sample_column_pairs: "column_pairs 3 = [(0, 1), (0, 2), (1, 2)]"
  by code_simp

lemma sample_statistic:
  "map (\<lambda>(i, j). pair_statistic covariance_statistics Covariance_Based sample_L None 3 i j)
     [(0, 1), (0, 2), (1, 2)] = [11 / 16, - (2 / 3), - (1 / 2)]"
  by code_simp

lemma sample_edges:
  "estimate_edges covariance_statistics sample_L None 3 (1 / 10) Covariance_Based =
     Inr [(0, 1), (0, 2), (1, 2)]"
  "estimate_edges covariance_statistics sample_L None 3 (3 / 5) Covariance_Based =
     Inr [(0, 1), (0, 2)]"
  "estimate_edges covariance_statistics sample_L None 3 (7 / 10) Covariance_Based = Inr []"
  by code_simp+

text \<open>
  C2: for the covariance-based policy on a fixed label matrix, with all other
  parameters fixed, raising the significance threshold never adds an edge: if the
  estimator succeeds at two thresholds \<open>t1 \<le> t2\<close>, every edge returned at \<open>t2\<close> is
  returned at \<open>t1\<close>, and the edge count at \<open>t2\<close> is at most the count at \<open>t1\<close>. This holds
  for every pairwise statistic.
\<close>

theorem estimate_edges_antitone:
  assumes "t1 \<le> t2"
    and "estimate_edges S L Y k t1 Covariance_Based = Inr E1"
    and "estimate_edges S L Y k t2 Covariance_Based = Inr E2"
  shows "length E2 \<le> length E1 \<and> set E2 \<subseteq> set E1"
proof -
  let ?st = "\<lambda>(i, j). \<bar>pair_statistic S Covariance_Based L Y k i j\<bar>"
  let ?cp = "column_pairs (m_functions L)"
  from assms(2) have E1: "E1 = filter (\<lambda>e. t1 < ?st e) ?cp"
    by (auto simp add: estimate_edges_def split: if_splits intro: filter_cong)
  from assms(3) have E2: "E2 = filter (\<lambda>e. t2 < ?st e) ?cp"
    by (auto simp add: estimate_edges_def split: if_splits intro: filter_cong)
  have "length E2 \<le> length E1"
    unfolding E1 E2 using \<open>t1 \<le> t2\<close> by (intro length_filter_mono) auto
  moreover have "set E2 \<subseteq> set E1"
    unfolding E1 E2 using \<open>t1 \<le> t2\<close> by auto
  ultimately show ?thesis ..
qed

theorem estimate_edges_antitone_witness:
  "(1 / 10 :: rat) \<le> 3 / 5 \<and>
   estimate_edges covariance_statistics sample_L None 3 (1 / 10) Covariance_Based =
     Inr [(0, 1), (0, 2), (1, 2)] \<and>
   estimate_edges covariance_statistics sample_L None 3 (3 / 5) Covariance_Based =
     Inr [(0, 1), (0, 2)] \<and>
   length [(0, 1), (0, 2 :: nat)] \<le> length [(0, 1), (0, 2), (1, 2 :: nat)] \<and>
   set [(0, 1), (0, 2 :: nat)] \<subseteq> set [(0, 1), (0, 2), (1, 2 :: nat)]"
proof -
  have le: "(1 / 10 :: rat) \<le> 3 / 5" by simp
  from estimate_edges_antitone [OF le sample_edges(1) sample_edges(2)] sample_edges
  show ?thesis by simp
qed

text \<open>
  C4: whenever \<open>estimate_edges\<close> succeeds, the returned edges contain no self-pair,
  reference only column indices below \<open>m_functions\<close>, and contain no pair twice, neither
  as an ordered nor as an unordered pair.
\<close>

theorem estimate_edges_well_formed:
  assumes "estimate_edges S L Y k t pol = Inr E"
  shows "(\<forall>(i, j) \<in> set E. i \<noteq> j \<and> i < m_functions L \<and> j < m_functions L) \<and>
         distinct E \<and> distinct (map (\<lambda>(i, j). {i, j}) E)"
proof -
  from estimate_edges_Inr [OF assms] obtain P
    where E: "E = filter P (column_pairs (m_functions L))" ..
  have "\<forall>(i, j) \<in> set E. i \<noteq> j \<and> i < m_functions L \<and> j < m_functions L"
    by (auto simp add: E set_column_pairs)
  moreover have "distinct E" by (simp add: E distinct_column_pairs)
  moreover have "distinct (map (\<lambda>(i, j). {i, j}) E)"
    unfolding E by (rule distinct_map_filter [OF distinct_unordered_column_pairs])
  ultimately show ?thesis by blast
qed

theorem estimate_edges_well_formed_witness:
  "estimate_edges covariance_statistics sample_L None 3 (3 / 5) Covariance_Based =
     Inr [(0, 1), (0, 2)] \<and>
   m_functions sample_L = 3 \<and>
   distinct [(0, 1), (0, 2 :: nat)] \<and>
   distinct (map (\<lambda>(i, j). {i, j}) [(0, 1), (0, 2 :: nat)])"
  using estimate_edges_well_formed [OF sample_edges(2)] sample_edges(2)
  by (simp add: sample_L_def)


section \<open>Properties of the generative label model\<close>

lemma fit_failed_phase:
  assumes "fit K M L es seed lr n lf = (M', Some e)" and "phase M = Unfitted"
  shows "phase M' = Unfitted"
  using assms by (auto simp add: fit_def Let_def split: if_splits)

lemma never_fitted_phase: "never_fitted K M \<Longrightarrow> phase M = Unfitted"
proof (induction rule: never_fitted.induct)
  case (fresh c)
  show ?case by (simp add: new_model_def)
next
  case (failed M L_train es seed learning_rate n_epochs log_frequency M' e)
  from failed.hyps(2) failed.IH show ?case by (rule fit_failed_phase)
qed

lemma sample_fit_diverges:
  "fit sample_kernel (new_model 3) sample_L [(0, 1)] 12345 100 2 (1 / 5) =
     (\<lparr>cardinality = 3, phase = Unfitted\<rparr>, Some FitDivergence)"
  by code_simp





text \<open>
  C7: on an instance that no \<open>fit\<close> call has yet fitted (a new instance, also after
  \<open>fit\<close> calls that raised), \<open>predict_proba\<close> and \<open>score\<close> raise ModelNotFittedError,
  whatever their arguments.
\<close>

theorem not_fitted_error:
  assumes "never_fitted K M"
  shows "predict_proba K M L = Inl ModelNotFittedError \<and>
         score K M L Y metric = Inl ModelNotFittedError"
  using never_fitted_phase [OF assms] by (simp add: score_def predict_proba_def)

theorem not_fitted_error_witness:
  "fit sample_kernel (new_model 3) sample_L [(0, 1)] 12345 100 2 (1 / 5) =
     (\<lparr>cardinality = 3, phase = Unfitted\<rparr>, Some FitDivergence) \<and>
   predict_proba sample_kernel \<lparr>cardinality = 3, phase = Unfitted\<rparr> sample_L =
     Inl ModelNotFittedError \<and>
   score sample_kernel \<lparr>cardinality = 3, phase = Unfitted\<rparr> sample_L sample_Y (\<lambda>Y P. 0) =
     Inl ModelNotFittedError \<and>
   predict_proba sample_kernel (new_model 3) sample_L = Inl ModelNotFittedError"
proof -
  have fresh: "never_fitted sample_kernel (new_model 3)"
    by (rule never_fitted.fresh)
  from never_fitted.failed [OF fresh sample_fit_diverges]
  have failed: "never_fitted sample_kernel \<lparr>cardinality = 3, phase = Unfitted\<rparr>" .
  from not_fitted_error [OF failed, of sample_L sample_Y "\<lambda>Y P. 0"]
    not_fitted_error [OF fresh, of sample_L sample_Y "\<lambda>Y P. 0"] sample_fit_diverges
  show ?thesis by simp
qed


end
